theory Spec2Isabelle
  imports Complex_Main "HOL-Library.Word"
begin

unbundle bit_operations_syntax

section \<open>The canonical message (shared/message\_schema.py)\<close>

subsection \<open>What construction reads from the outside\<close>

text \<open>
  \<^verbatim>\<open>UnifiedMessage.__init__\<close> reads two things that are not arguments: the clock
  (\<^verbatim>\<open>datetime.utcnow().isoformat()\<close>) and the random source behind
  \<^verbatim>\<open>uuid.uuid4()\<close>. Both are made explicit: one construction receives the text the
  clock would print and the sixteen random bytes \<^verbatim>\<open>os.urandom(16)\<close> would return,
  read big-endian as one 128-bit value.
\<close>

record env =
  utcnow_isoformat :: string
  urandom16 :: "128 word"

text \<open>
  The standard library's \<^verbatim>\<open>uuid4()\<close> is \<^verbatim>\<open>UUID(bytes=os.urandom(16), version=4)\<close>;
  with a version given, the constructor overwrites the variant and the version bits:
  \<^verbatim>\<open>
  int &= ~(0xc000 << 48)
  int |= 0x8000 << 48
  int &= ~(0xf000 << 64)
  int |= version << 76
  \<close>
\<close>

definition uuid4 :: "128 word \<Rightarrow> 128 word" where
  "uuid4 r =
     (let i1 = r AND NOT (push_bit 48 0xc000);
          i2 = i1 OR push_bit 48 0x8000;
          i3 = i2 AND NOT (push_bit 64 0xf000)
      in i3 OR push_bit 76 4)"

text \<open>The six bits that version 4 overwrites; the other 122 are the random ones.\<close>

definition version_variant_bits :: "128 word" where
  "version_variant_bits = push_bit 64 0xf000 OR push_bit 48 0xc000"

text \<open>
  \<^verbatim>\<open>str(UUID)\<close> prints the value as 32 lower-case hexadecimal digits,
  \<^verbatim>\<open>hex = '%032x' % self.int\<close>, cut into groups of 8, 4, 4, 4 and 12 digits joined by
  hyphens.
\<close>

definition hex_digit :: "nat \<Rightarrow> char" where
  "hex_digit n = ''0123456789abcdef'' ! (n mod 16)"

definition hex032 :: "128 word \<Rightarrow> string" where
  "hex032 w = map (\<lambda>i. hex_digit (unat (drop_bit (4 * (31 - i)) w AND 0xF))) [0..<32]"

definition str_uuid :: "128 word \<Rightarrow> string" where
  "str_uuid w =
     (let hex = hex032 w
      in take 8 hex @ ''-'' @ take 4 (drop 8 hex) @ ''-'' @ take 4 (drop 12 hex) @ ''-''
         @ take 4 (drop 16 hex) @ ''-'' @ drop 20 hex)"

subsection \<open>The message and its constructor\<close>

record 'p UnifiedMessage =
  engine_source :: string
  input_type :: string
  raw_payload :: 'p
  timestamp :: string
  source_device :: string
  confidence :: real
  privacy_flag :: bool
  session_id :: string
  payload_type :: string

text \<open>
  Python's \<^verbatim>\<open>x or y\<close> on an optional string: \<^verbatim>\<open>x\<close> when it is truthy, that is neither
  \<^verbatim>\<open>None\<close> nor the empty string, and \<^verbatim>\<open>y\<close> otherwise.
\<close>

fun py_or :: "string option \<Rightarrow> string \<Rightarrow> string" where
  "py_or None y = y"
| "py_or (Some x) y = (if x = [] then y else x)"

text \<open>A keyword argument with a default: \<open>None\<close> stands for an argument left out.\<close>

fun default_arg :: "'a \<Rightarrow> 'a option \<Rightarrow> 'a" where
  "default_arg d None = d"
| "default_arg d (Some v) = v"

text \<open>
  \<^verbatim>\<open>__init__(self, engine_source, input_type, raw_payload, timestamp=None,
  source_device="unknown", confidence=1.0, privacy_flag=False, session_id=None,
  payload_type="string")\<close>. Every argument is stored as given, except that a falsy
  timestamp is replaced by the clock's text and a falsy session id by a fresh UUID.
\<close>

definition UnifiedMessage_init ::
  "env \<Rightarrow> string \<Rightarrow> string \<Rightarrow> 'p \<Rightarrow> string option \<Rightarrow> string option \<Rightarrow> real option
     \<Rightarrow> bool option \<Rightarrow> string option \<Rightarrow> string option \<Rightarrow> 'p UnifiedMessage" where
  "UnifiedMessage_init e engine_source_arg input_type_arg raw_payload_arg timestamp_arg
       source_device_arg confidence_arg privacy_flag_arg session_id_arg payload_type_arg =
     \<lparr> engine_source = engine_source_arg,
       input_type = input_type_arg,
       raw_payload = raw_payload_arg,
       timestamp = py_or timestamp_arg (utcnow_isoformat e),
       source_device = default_arg ''unknown'' source_device_arg,
       confidence = default_arg 1 confidence_arg,
       privacy_flag = default_arg False privacy_flag_arg,
       session_id = py_or session_id_arg (str_uuid (uuid4 (urandom16 e))),
       payload_type = default_arg ''string'' payload_type_arg \<rparr>"

text \<open>
  The factory \<^verbatim>\<open>create(cls, input_type, raw_payload, source_device="unknown",
  engine_source="ENGINE_001")\<close> infers the payload type and calls the constructor with
  five keyword arguments; timestamp, confidence, privacy flag and session id are left out.
\<close>

definition UnifiedMessage_create ::
  "env \<Rightarrow> string \<Rightarrow> 'p \<Rightarrow> string option \<Rightarrow> string option \<Rightarrow> 'p UnifiedMessage" where
  "UnifiedMessage_create e input_type_arg raw_payload_arg source_device_arg engine_source_arg =
     (let payload_type_inferred =
            (if input_type_arg = ''audio'' then ''binary''
             else if input_type_arg \<in> set [''event'', ''signal''] then ''dict''
             else ''string'')
      in UnifiedMessage_init e (default_arg ''ENGINE_001'' engine_source_arg) input_type_arg
           raw_payload_arg None (Some (default_arg ''unknown'' source_device_arg)) None None None
           (Some payload_type_inferred))"

section \<open>The listener loop (main.py)\<close>

subsection \<open>Listeners, the controller and what one cycle meets\<close>

text \<open>
  The loop inspects its listener three ways: by class (\<^verbatim>\<open>isinstance\<close>), by calling
  \<^verbatim>\<open>listen()\<close>, and by class name when it logs. The four classes tested are the four
  that \<^verbatim>\<open>main\<close> instantiates; a listener of any other class passes every
  \<^verbatim>\<open>isinstance\<close> test as false.
\<close>

datatype listener =
  TextListener | AudioListener | EventListener | SignalListener | OtherListener string

fun class_name :: "listener \<Rightarrow> string" where
  "class_name TextListener = ''TextListener''"
| "class_name AudioListener = ''AudioListener''"
| "class_name EventListener = ''EventListener''"
| "class_name SignalListener = ''SignalListener''"
| "class_name (OtherListener n) = n"

definition isinstance :: "listener \<Rightarrow> listener \<Rightarrow> bool" where
  "isinstance l cls = (l = cls)"

record controller =
  engine_on :: bool
  text_enabled :: bool
  audio_enabled :: bool
  events_enabled :: bool
  signals_enabled :: bool

text \<open>The enable flag that belongs to a listener's class; a foreign class has none.\<close>

fun channel_flag :: "listener \<Rightarrow> controller \<Rightarrow> bool" where
  "channel_flag TextListener c = text_enabled c"
| "channel_flag AudioListener c = audio_enabled c"
| "channel_flag EventListener c = events_enabled c"
| "channel_flag SignalListener c = signals_enabled c"
| "channel_flag (OtherListener n) c = True"

text \<open>
  A call either returns or raises. \<^verbatim>\<open>except Exception\<close> catches instances of
  \<^verbatim>\<open>Exception\<close> only; \<^verbatim>\<open>SystemExit\<close>, \<^verbatim>\<open>KeyboardInterrupt\<close> and
  \<^verbatim>\<open>GeneratorExit\<close> derive from \<^verbatim>\<open>BaseException\<close> alone and pass through it.
  Both carry the text that formatting the exception into a string gives.
\<close>

datatype exn = Exception string | BaseException_only string

datatype 'a outcome = Returned 'a | Raised exn

text \<open>
  The controller is shared with other threads, the listener, the normalizer and the
  gateway are objects defined elsewhere. One cycle of the loop therefore meets: the
  controller as it reads at that cycle, and what each of the three calls does if the
  cycle reaches it (\<open>None\<close> is Python's \<^verbatim>\<open>None\<close>, the absent capture).
\<close>

record ('c, 'm) cycle =
  seen :: controller
  on_listen :: "'c option outcome"
  on_normalize :: "'m outcome"
  on_forward :: "unit outcome"

text \<open>What the loop does that is visible from outside, in order. Sleeps are in milliseconds.\<close>

datatype ('c, 'm) event =
  Slept nat | Called_listen | Printed string | Called_normalize 'c | Called_forward 'm

datatype flow = Next_cycle | Uncaught exn

subsection \<open>The body of the loop and the loop\<close>

text \<open>
  One pass through the body of \<^verbatim>\<open>while controller.engine_on:\<close>, top to bottom: the four
  gate tests, the guarded capture, the unguarded normalisation and forwarding, the
  final sleep.
\<close>

definition loop_body :: "listener \<Rightarrow> ('c, 'm) cycle \<Rightarrow> ('c, 'm) event list \<times> flow" where
  "loop_body l c =
     (if isinstance l TextListener \<and> \<not> text_enabled (seen c) then ([Slept 100], Next_cycle)
      else if isinstance l AudioListener \<and> \<not> audio_enabled (seen c) then ([Slept 100], Next_cycle)
      else if isinstance l EventListener \<and> \<not> events_enabled (seen c) then ([Slept 100], Next_cycle)
      else if isinstance l SignalListener \<and> \<not> signals_enabled (seen c) then ([Slept 100], Next_cycle)
      else
        (case on_listen c of
           Raised (Exception s) \<Rightarrow>
             ([Called_listen, Printed (''[Listener Error] '' @ class_name l @ '': '' @ s)],
              Next_cycle)
         | Raised (BaseException_only s) \<Rightarrow> ([Called_listen], Uncaught (BaseException_only s))
         | Returned None \<Rightarrow> ([Called_listen], Next_cycle)
         | Returned (Some msg) \<Rightarrow>
             (case on_normalize c of
                Raised x \<Rightarrow> ([Called_listen, Called_normalize msg], Uncaught x)
              | Returned normalized_msg \<Rightarrow>
                  (case on_forward c of
                     Raised x \<Rightarrow>
                       ([Called_listen, Called_normalize msg, Called_forward normalized_msg],
                        Uncaught x)
                   | Returned u \<Rightarrow>
                       ([Called_listen, Called_normalize msg, Called_forward normalized_msg,
                         Slept 50],
                        Next_cycle)))))"

text \<open>
  The loop runs for as long as the master flag reads true, so it has no bound of its
  own. It is run against the cycles the outside offers: it ends by leaving the
  \<^verbatim>\<open>while\<close> (\<open>Exited\<close>), by an exception nobody caught (\<open>Killed\<close>), or it is still
  going when the offered cycles are used up (\<open>Still_running\<close>).
\<close>

datatype ending = Exited | Killed exn | Still_running

fun listener_loop :: "listener \<Rightarrow> ('c, 'm) cycle list \<Rightarrow> ('c, 'm) event list \<times> ending" where
  "listener_loop l [] = ([], Still_running)"
| "listener_loop l (c # cs) =
     (if engine_on (seen c) then
        (case loop_body l c of
           (evs, Next_cycle) \<Rightarrow>
             (case listener_loop l cs of (evs', r) \<Rightarrow> (evs @ evs', r))
         | (evs, Uncaught x) \<Rightarrow> (evs, Killed x))
      else ([], Exited))"

section \<open>Startup and shutdown (main.py)\<close>

datatype engine = Engine_001 | Engine_002 | Engine_003 | Engine_004 | Engine_005 | Engine_006

text \<open>
  What \<^verbatim>\<open>main\<close> does to the engines and threads, in program order. \<open>Start\<close> is a
  controller's \<^verbatim>\<open>start()\<close> called and returned in the main thread; \<open>Start_in_thread\<close>
  is the Mother Engine's \<^verbatim>\<open>start\<close> handed to a daemon thread that is started at once;
  \<open>Registered\<close> is the entry made in \<^verbatim>\<open>all_engines\<close>. Engine 001 has no
  \<^verbatim>\<open>start()\<close>: it is started by spawning one listener loop per listener.
\<close>

datatype main_event =
  Start engine | Start_in_thread engine | Registered engine
| Spawned_listener_loop listener | Spawned_monitor
| Set_engine_on bool | Stop engine
| Joined_listener_loop listener | Joined_mother_thread

definition listeners :: "listener list" where
  "listeners = [TextListener, AudioListener, EventListener, SignalListener]"

definition startup :: "main_event list" where
  "startup =
     [Start Engine_003, Registered Engine_003,
      Start Engine_004, Registered Engine_004,
      Start Engine_005, Registered Engine_005,
      Start Engine_006, Registered Engine_006,
      Start_in_thread Engine_002, Registered Engine_002]
     @ map Spawned_listener_loop listeners
     @ [Registered Engine_001, Spawned_monitor]"

text \<open>
  The keep-alive loop \<^verbatim>\<open>while controller.engine_on:\<close> polls and prints status once a
  second inside \<^verbatim>\<open>try\<close>. It is left in one of two ways: the flag reads false, or a
  \<^verbatim>\<open>KeyboardInterrupt\<close> arrives and the \<^verbatim>\<open>except\<close> block runs. Every
  \<^verbatim>\<open>start()\<close> and \<^verbatim>\<open>stop()\<close> is taken to return.
\<close>

datatype keep_alive_end = Flag_read_false | KeyboardInterrupt

definition on_keyboard_interrupt :: "main_event list" where
  "on_keyboard_interrupt =
     [Set_engine_on False,
      Stop Engine_006, Stop Engine_005, Stop Engine_004, Stop Engine_003, Stop Engine_002]"

definition cleanup :: "main_event list" where
  "cleanup = map Joined_listener_loop listeners @ [Joined_mother_thread]"

definition main :: "keep_alive_end \<Rightarrow> main_event list" where
  "main how =
     startup
     @ (case how of Flag_read_false \<Rightarrow> [] | KeyboardInterrupt \<Rightarrow> on_keyboard_interrupt)
     @ cleanup"

text \<open>Reading a trace: the engines in the order their start and their stop was called.\<close>

fun start_of :: "main_event \<Rightarrow> engine option" where
  "start_of (Start g) = Some g"
| "start_of (Start_in_thread g) = Some g"
| "start_of ev = None"

fun stop_of :: "main_event \<Rightarrow> engine option" where
  "stop_of (Stop g) = Some g"
| "stop_of ev = None"

definition start_order :: "main_event list \<Rightarrow> engine list" where
  "start_order tr = List.map_filter start_of tr"

definition stop_order :: "main_event list \<Rightarrow> engine list" where
  "stop_order tr = List.map_filter stop_of tr"

text \<open>\<open>precedes x y xs\<close>: some occurrence of \<open>y\<close> comes after the first \<open>x\<close> in \<open>xs\<close>.\<close>

definition precedes :: "'a \<Rightarrow> 'a \<Rightarrow> 'a list \<Rightarrow> bool" where
  "precedes x y xs = (y \<in> set (drop 1 (dropWhile (\<lambda>z. z \<noteq> x) xs)))"

text \<open>A controller with the master flag and every channel on, for worked examples.\<close>

definition all_on :: controller where
  "all_on = \<lparr>engine_on = True, text_enabled = True, audio_enabled = True,
              events_enabled = True, signals_enabled = True\<rparr>"

section \<open>Properties of the generated identifier\<close>

lemma length_hex032: "length (hex032 w) = 32"
  by (simp add: hex032_def)

lemma length_str_uuid: "length (str_uuid w) = 36"
  by (simp add: str_uuid_def Let_def length_hex032)

lemma hex_digit_inj:
  assumes "m < 16" "n < 16" "hex_digit m = hex_digit n"
  shows "m = n"
proof -
  have d: "distinct ''0123456789abcdef''" by simp
  have l: "length ''0123456789abcdef'' = 16" by simp
  from assms have "''0123456789abcdef'' ! m = ''0123456789abcdef'' ! n"
    by (simp add: hex_digit_def)
  with d l assms(1,2) show "m = n" by (metis nth_eq_iff_index_eq)
qed

lemma nibble_lt: "unat ((x :: 128 word) AND 0xF) < 16"
proof -
  have "unat (x AND 0xF) \<le> unat (0xF :: 128 word)"
    by (rule word_and_le1 [THEN word_le_nat_alt [THEN iffD1]])
  then show ?thesis by simp
qed

lemma hex032_nibbles:
  assumes "hex032 v = hex032 w" "i < 32"
  shows "drop_bit (4 * (31 - i)) v AND 0xF = drop_bit (4 * (31 - i)) w AND 0xF"
proof -
  from assms have "hex032 v ! i = hex032 w ! i" by simp
  with assms(2)
  have "hex_digit (unat (drop_bit (4 * (31 - i)) v AND 0xF))
      = hex_digit (unat (drop_bit (4 * (31 - i)) w AND 0xF))"
    by (simp add: hex032_def)
  then have "unat (drop_bit (4 * (31 - i)) v AND 0xF) = unat (drop_bit (4 * (31 - i)) w AND 0xF)"
    using hex_digit_inj nibble_lt by blast
  then show ?thesis by (simp only: word_unat_eq_iff)
qed

lemma fifteen_is_mask: "(0xF :: 128 word) = mask 4"
  by (simp add: mask_eq_exp_minus_1)

text \<open>Every bit of the value is a bit of one of the 32 printed digits.\<close>

lemma hex032_inj:
  assumes e: "hex032 v = hex032 w"
  shows "v = w"
proof (rule bit_eqI)
  fix n
  assume "possible_bit TYPE(128 word) n"
  then have n: "n < 128" by (simp add: possible_bit_def)
  define i where "i = 31 - n div 4"
  have i: "i < 32" "4 * (31 - i) = 4 * (n div 4)" using n by (auto simp: i_def)
  have "drop_bit (4 * (n div 4)) v AND mask 4 = drop_bit (4 * (n div 4)) w AND mask 4"
    using hex032_nibbles [OF e i(1)] i(2) by (simp add: fifteen_is_mask)
  then have "bit (drop_bit (4 * (n div 4)) v AND mask 4) (n mod 4)
           = bit (drop_bit (4 * (n div 4)) w AND mask 4) (n mod 4)"
    by simp
  moreover have "n mod 4 < 128" by (rule less_trans [of _ 4]) simp_all
  ultimately show "bit v n = bit w n"
    by (simp add: bit_simps mult.commute)
qed

lemma regroup:
  fixes xs :: "'a list"
  shows "take 8 xs @ take 4 (drop 8 xs) @ take 4 (drop 12 xs) @ take 4 (drop 16 xs) @ drop 20 xs
       = xs"
proof -
  have a: "take 8 xs @ take 4 (drop 8 xs) = take 12 xs" using take_add [of 8 4 xs] by simp
  have b: "take 12 xs @ take 4 (drop 12 xs) = take 16 xs" using take_add [of 12 4 xs] by simp
  have c: "take 16 xs @ take 4 (drop 16 xs) = take 20 xs" using take_add [of 16 4 xs] by simp
  have "take 8 xs @ take 4 (drop 8 xs) @ take 4 (drop 12 xs) @ take 4 (drop 16 xs) @ drop 20 xs
      = (((take 8 xs @ take 4 (drop 8 xs)) @ take 4 (drop 12 xs)) @ take 4 (drop 16 xs))
        @ drop 20 xs"
    by (simp only: append_assoc)
  also have "\<dots> = xs" by (simp only: a b c append_take_drop_id)
  finally show ?thesis .
qed

text \<open>The hyphens sit at fixed places, so the five groups can be read back.\<close>

lemma ungroup:
  fixes a b :: string
  assumes la: "length a = 32" and lb: "length b = 32"
    and e: "take 8 a @ ''-'' @ take 4 (drop 8 a) @ ''-'' @ take 4 (drop 12 a) @ ''-''
              @ take 4 (drop 16 a) @ ''-'' @ drop 20 a
          = take 8 b @ ''-'' @ take 4 (drop 8 b) @ ''-'' @ take 4 (drop 12 b) @ ''-''
              @ take 4 (drop 16 b) @ ''-'' @ drop 20 b"
  shows "a = b"
proof -
  define r1 where
    "r1 = take 4 (drop 8 a) @ ''-'' @ take 4 (drop 12 a) @ ''-'' @ take 4 (drop 16 a) @ ''-''
          @ drop 20 a"
  define s1 where
    "s1 = take 4 (drop 8 b) @ ''-'' @ take 4 (drop 12 b) @ ''-'' @ take 4 (drop 16 b) @ ''-''
          @ drop 20 b"
  define r2 where "r2 = take 4 (drop 12 a) @ ''-'' @ take 4 (drop 16 a) @ ''-'' @ drop 20 a"
  define s2 where "s2 = take 4 (drop 12 b) @ ''-'' @ take 4 (drop 16 b) @ ''-'' @ drop 20 b"
  define r3 where "r3 = take 4 (drop 16 a) @ ''-'' @ drop 20 a"
  define s3 where "s3 = take 4 (drop 16 b) @ ''-'' @ drop 20 b"
  have "take 8 a @ (''-'' @ r1) = take 8 b @ (''-'' @ s1)"
    using e by (simp add: r1_def s1_def)
  then have p1: "take 8 a = take 8 b \<and> r1 = s1"
    using la lb by simp
  then have "take 4 (drop 8 a) @ (''-'' @ r2) = take 4 (drop 8 b) @ (''-'' @ s2)"
    by (simp add: r1_def s1_def r2_def s2_def)
  then have p2: "take 4 (drop 8 a) = take 4 (drop 8 b) \<and> r2 = s2"
    using la lb by simp
  then have "take 4 (drop 12 a) @ (''-'' @ r3) = take 4 (drop 12 b) @ (''-'' @ s3)"
    by (simp add: r2_def s2_def r3_def s3_def)
  then have p3: "take 4 (drop 12 a) = take 4 (drop 12 b) \<and> r3 = s3"
    using la lb by simp
  then have "take 4 (drop 16 a) @ (''-'' @ drop 20 a) = take 4 (drop 16 b) @ (''-'' @ drop 20 b)"
    by (simp add: r3_def s3_def)
  then have p4: "take 4 (drop 16 a) = take 4 (drop 16 b) \<and> drop 20 a = drop 20 b"
    using la lb by simp
  have "a = take 8 a @ take 4 (drop 8 a) @ take 4 (drop 12 a) @ take 4 (drop 16 a) @ drop 20 a"
    by (simp only: regroup)
  also have "\<dots>
      = take 8 b @ take 4 (drop 8 b) @ take 4 (drop 12 b) @ take 4 (drop 16 b) @ drop 20 b"
    using p1 p2 p3 p4 by (simp only:)
  also have "\<dots> = b" by (simp only: regroup)
  finally show ?thesis .
qed

lemma str_uuid_inj:
  assumes e: "str_uuid v = str_uuid w"
  shows "v = w"
proof -
  have "hex032 v = hex032 w"
    by (rule ungroup) (use e in \<open>simp_all only: length_hex032 str_uuid_def Let_def\<close>)
  then show ?thesis by (rule hex032_inj)
qed

text \<open>
  Overwriting the variant and then the version bits is one masking followed by one
  setting, because the variant bits set lie outside the version field.
\<close>

lemma overwrite_twice:
  fixes r a b c d :: "'a::len word"
  assumes "b AND NOT c = b"
  shows "(((r AND NOT a) OR b) AND NOT c) OR d = (r AND NOT (c OR a)) OR (d OR b)"
proof -
  have "((r AND NOT a) OR b) AND NOT c = (r AND NOT a AND NOT c) OR (b AND NOT c)"
    by (simp only: bit.conj_disj_distrib2 and.assoc)
  also have "\<dots> = (r AND NOT (c OR a)) OR b"
    by (simp only: assms bit.de_Morgan_disj and.assoc and.commute)
  finally have m: "((r AND NOT a) OR b) AND NOT c = (r AND NOT (c OR a)) OR b" .
  show ?thesis unfolding m by (simp only: or.assoc or.commute or.left_commute)
qed

lemma masked_or_cancel:
  fixes x y f m :: "'a::len word"
  assumes f: "f AND NOT m = 0" and e: "(x AND NOT m) OR f = (y AND NOT m) OR f"
  shows "x AND NOT m = y AND NOT m"
proof -
  have k: "((z AND NOT m) OR f) AND NOT m = z AND NOT m" for z
    by (simp add: bit.conj_disj_distrib2 f and.assoc)
  from e have "((x AND NOT m) OR f) AND NOT m = ((y AND NOT m) OR f) AND NOT m" by simp
  then show ?thesis by (simp only: k)
qed

lemma uuid4_normal_form:
  "uuid4 r = (r AND NOT version_variant_bits) OR (push_bit 76 4 OR push_bit 48 0x8000)"
proof -
  have "(push_bit 48 0x8000 :: 128 word) AND NOT (push_bit 64 0xf000) = push_bit 48 0x8000"
    by simp
  then show ?thesis
    unfolding uuid4_def Let_def version_variant_bits_def by (rule overwrite_twice)
qed

lemma fixed_inside:
  "(push_bit 76 4 OR push_bit 48 0x8000) AND NOT version_variant_bits = (0 :: 128 word)"
  unfolding version_variant_bits_def by simp

lemma uuid4_eq_iff:
  "uuid4 r1 = uuid4 r2 \<longleftrightarrow>
   r1 AND NOT version_variant_bits = r2 AND NOT version_variant_bits"
proof
  assume "uuid4 r1 = uuid4 r2"
  then show "r1 AND NOT version_variant_bits = r2 AND NOT version_variant_bits"
    unfolding uuid4_normal_form by (rule masked_or_cancel [OF fixed_inside])
next
  assume "r1 AND NOT version_variant_bits = r2 AND NOT version_variant_bits"
  then show "uuid4 r1 = uuid4 r2" by (simp only: uuid4_normal_form)
qed

section \<open>The payload type and the session identifier\<close>

text \<open>
  Claim C1. A message built by the factory \<^verbatim>\<open>create\<close> has its payload type fixed by
  its input type: \<^verbatim>\<open>audio\<close> gives \<^verbatim>\<open>binary\<close>, \<^verbatim>\<open>event\<close> and \<^verbatim>\<open>signal\<close> give
  \<^verbatim>\<open>dict\<close>, every other input type gives \<^verbatim>\<open>string\<close>.
\<close>

theorem create_payload_type_derived:
  "(it = ''audio'' \<longrightarrow> payload_type (UnifiedMessage_create e it p sd es) = ''binary'')
   \<and> (it = ''event'' \<or> it = ''signal'' \<longrightarrow>
        payload_type (UnifiedMessage_create e it p sd es) = ''dict'')
   \<and> (it \<noteq> ''audio'' \<and> it \<noteq> ''event'' \<and> it \<noteq> ''signal'' \<longrightarrow>
        payload_type (UnifiedMessage_create e it p sd es) = ''string'')"
  by (simp add: UnifiedMessage_create_def UnifiedMessage_init_def)

theorem create_payload_type_derived_witness:
  "payload_type (UnifiedMessage_create \<lparr>utcnow_isoformat = ''2024-05-01T10:00:00'', urandom16 = 7\<rparr>
      ''audio'' [1::nat, 2] (Some ''microphone'') None) = ''binary''
   \<and> payload_type (UnifiedMessage_create \<lparr>utcnow_isoformat = ''2024-05-01T10:00:00'', urandom16 = 7\<rparr>
      ''event'' [1::nat, 2] None None) = ''dict''
   \<and> payload_type (UnifiedMessage_create \<lparr>utcnow_isoformat = ''2024-05-01T10:00:00'', urandom16 = 7\<rparr>
      ''signal'' [1::nat, 2] None None) = ''dict''
   \<and> payload_type (UnifiedMessage_create \<lparr>utcnow_isoformat = ''2024-05-01T10:00:00'', urandom16 = 7\<rparr>
      ''text'' [1::nat, 2] None None) = ''string''"
  using
    create_payload_type_derived [of "''audio''" "\<lparr>utcnow_isoformat = ''2024-05-01T10:00:00'', urandom16 = 7\<rparr>" "[1::nat, 2]" "Some ''microphone''" None]
    create_payload_type_derived [of "''event''" "\<lparr>utcnow_isoformat = ''2024-05-01T10:00:00'', urandom16 = 7\<rparr>" "[1::nat, 2]" None None]
    create_payload_type_derived [of "''signal''" "\<lparr>utcnow_isoformat = ''2024-05-01T10:00:00'', urandom16 = 7\<rparr>" "[1::nat, 2]" None None]
    create_payload_type_derived [of "''text''" "\<lparr>utcnow_isoformat = ''2024-05-01T10:00:00'', urandom16 = 7\<rparr>" "[1::nat, 2]" None None]
  by simp

text \<open>
  Claim C2, as amended. The derivation is kept by the factory: a message built by
  \<^verbatim>\<open>create\<close> with input type \<^verbatim>\<open>audio\<close> carries \<^verbatim>\<open>binary\<close>, never \<^verbatim>\<open>string\<close>. The
  constructor called directly derives nothing: it stores the input type and the payload
  type it is given, and \<^verbatim>\<open>string\<close> when no payload type is given.
\<close>

theorem audio_never_string_by_factory:
  "(input_type (UnifiedMessage_create e it p sd es) = ''audio'' \<longrightarrow>
      payload_type (UnifiedMessage_create e it p sd es) = ''binary''
      \<and> payload_type (UnifiedMessage_create e it p sd es) \<noteq> ''string'')
   \<and> input_type (UnifiedMessage_init e es' it' p' ts sd' cf pf sid pt) = it'
   \<and> payload_type (UnifiedMessage_init e es' it' p' ts sd' cf pf sid pt) = default_arg ''string'' pt"
  by (simp add: UnifiedMessage_create_def UnifiedMessage_init_def)

theorem audio_never_string_by_factory_witness:
  "input_type (UnifiedMessage_create \<lparr>utcnow_isoformat = ''2024-05-01T10:00:00'', urandom16 = 7\<rparr>
      ''audio'' [1::nat, 2] (Some ''microphone'') None) = ''audio''
   \<and> payload_type (UnifiedMessage_create \<lparr>utcnow_isoformat = ''2024-05-01T10:00:00'', urandom16 = 7\<rparr>
      ''audio'' [1::nat, 2] (Some ''microphone'') None) \<noteq> ''string''"
  using audio_never_string_by_factory [of "\<lparr>utcnow_isoformat = ''2024-05-01T10:00:00'', urandom16 = 7\<rparr>" "''audio''" "[1::nat, 2]" "Some ''microphone''" None]
  by (simp add: UnifiedMessage_create_def UnifiedMessage_init_def)

text \<open>
  Claim C2 as first stated covers the constructor too, and fails there: constructing
  an audio message directly, with no payload type, gives one that carries \<^verbatim>\<open>string\<close>.
\<close>

theorem init_audio_string_counterexample:
  "input_type (UnifiedMessage_init \<lparr>utcnow_isoformat = ''2024-05-01T10:00:00'', urandom16 = 7\<rparr>
      ''ENGINE_001'' ''audio'' [1::nat, 2] None None None None None None) = ''audio''
   \<and> payload_type (UnifiedMessage_init \<lparr>utcnow_isoformat = ''2024-05-01T10:00:00'', urandom16 = 7\<rparr>
      ''ENGINE_001'' ''audio'' [1::nat, 2] None None None None None None) = ''string''"
  by (simp add: UnifiedMessage_init_def)

text \<open>
  Claim C9. A message constructed without a session id gets a freshly generated one:
  the 36-character text of a version-4 UUID, hence never empty; and two such
  constructions get different session ids whenever their random draws differ in at
  least one of the 122 bits that version 4 keeps.
\<close>

theorem fresh_session_id:
  "session_id (UnifiedMessage_init e1 es1 it1 p1 ts1 sd1 cf1 pf1 None pt1) = str_uuid (uuid4 (urandom16 e1))
   \<and> length (session_id (UnifiedMessage_init e1 es1 it1 p1 ts1 sd1 cf1 pf1 None pt1)) = 36
   \<and> session_id (UnifiedMessage_init e1 es1 it1 p1 ts1 sd1 cf1 pf1 None pt1) \<noteq> []
   \<and> (urandom16 e1 AND NOT version_variant_bits \<noteq> urandom16 e2 AND NOT version_variant_bits \<longrightarrow>
        session_id (UnifiedMessage_init e1 es1 it1 p1 ts1 sd1 cf1 pf1 None pt1)
        \<noteq> session_id (UnifiedMessage_init e2 es2 it2 p2 ts2 sd2 cf2 pf2 None pt2))"
proof -
  have s: "session_id (UnifiedMessage_init e es it p ts sd cf pf None pt) = str_uuid (uuid4 (urandom16 e))"
    for e es it and p :: 'z and ts sd cf pf pt
    by (simp add: UnifiedMessage_init_def)
  have n: "str_uuid w \<noteq> []" for w
    using length_str_uuid [of w] by auto
  have d: "str_uuid (uuid4 (urandom16 e1)) \<noteq> str_uuid (uuid4 (urandom16 e2))"
    if "urandom16 e1 AND NOT version_variant_bits \<noteq> urandom16 e2 AND NOT version_variant_bits"
    using that str_uuid_inj uuid4_eq_iff by blast
  show ?thesis
    using d by (simp add: s n length_str_uuid)
qed

theorem fresh_session_id_witness:
  "session_id (UnifiedMessage_init \<lparr>utcnow_isoformat = ''2024-05-01T10:00:00'', urandom16 = 1\<rparr>
      ''ENGINE_001'' ''text'' ''hello'' None None None None None None)
   \<noteq> session_id (UnifiedMessage_init \<lparr>utcnow_isoformat = ''2024-05-01T10:00:00'', urandom16 = 2\<rparr>
      ''ENGINE_001'' ''text'' ''hello'' None None None None None None)
   \<and> (1 :: 128 word) AND NOT version_variant_bits \<noteq> 2 AND NOT version_variant_bits"
proof -
  have h: "(1 :: 128 word) AND NOT version_variant_bits \<noteq> 2 AND NOT version_variant_bits"
    by (simp add: version_variant_bits_def)
  show ?thesis
    using h fresh_session_id [of "\<lparr>utcnow_isoformat = ''2024-05-01T10:00:00'', urandom16 = 1\<rparr>"
       "''ENGINE_001''" "''text''" "''hello''" None None None None None
       "\<lparr>utcnow_isoformat = ''2024-05-01T10:00:00'', urandom16 = 2\<rparr>"
       "''ENGINE_001''" "''text''" "''hello''" None None None None None]
    unfolding env.simps by blast
qed

text \<open>
  Claim C10. No construction leaves the session id empty: an empty string passed as
  session id is falsy, so it is replaced by a generated UUID exactly as a missing one is.
\<close>

theorem session_id_never_empty:
  "session_id (UnifiedMessage_init e es it p ts sd cf pf sid pt) \<noteq> []
   \<and> session_id (UnifiedMessage_init e es it p ts sd cf pf (Some []) pt) = str_uuid (uuid4 (urandom16 e))
   \<and> session_id (UnifiedMessage_init e es it p ts sd cf pf (Some []) pt)
     = session_id (UnifiedMessage_init e es it p ts sd cf pf None pt)"
proof -
  have n: "str_uuid w \<noteq> []" for w
    using length_str_uuid [of w] by auto
  show ?thesis
    by (cases sid) (simp_all add: UnifiedMessage_init_def n)
qed

section \<open>One cycle of the listener loop\<close>

text \<open>The gate: with the listener's own flag off, the body only sleeps.\<close>

lemma loop_body_gate_closed:
  assumes "\<not> channel_flag l (seen c)"
  shows "loop_body l c = ([Slept 100], Next_cycle)"
  using assms by (cases l) (simp_all add: loop_body_def isinstance_def)

text \<open>With the flag on (or no flag to consult), all four gate tests fall through.\<close>

lemma loop_body_gate_open:
  assumes "channel_flag l (seen c)"
  shows "loop_body l c =
     (case on_listen c of
        Raised (Exception s) \<Rightarrow>
          ([Called_listen, Printed (''[Listener Error] '' @ class_name l @ '': '' @ s)], Next_cycle)
      | Raised (BaseException_only s) \<Rightarrow> ([Called_listen], Uncaught (BaseException_only s))
      | Returned None \<Rightarrow> ([Called_listen], Next_cycle)
      | Returned (Some msg) \<Rightarrow>
          (case on_normalize c of
             Raised x \<Rightarrow> ([Called_listen, Called_normalize msg], Uncaught x)
           | Returned normalized_msg \<Rightarrow>
               (case on_forward c of
                  Raised x \<Rightarrow>
                    ([Called_listen, Called_normalize msg, Called_forward normalized_msg], Uncaught x)
                | Returned u \<Rightarrow>
                    ([Called_listen, Called_normalize msg, Called_forward normalized_msg, Slept 50],
                     Next_cycle))))"
proof -
  have "\<not> (isinstance l TextListener \<and> \<not> text_enabled (seen c))"
    "\<not> (isinstance l AudioListener \<and> \<not> audio_enabled (seen c))"
    "\<not> (isinstance l EventListener \<and> \<not> events_enabled (seen c))"
    "\<not> (isinstance l SignalListener \<and> \<not> signals_enabled (seen c))"
    using assms by (cases l; simp add: isinstance_def)+
  then show ?thesis by (simp only: loop_body_def if_False)
qed

lemma listener_loop_next:
  assumes "engine_on (seen c)" "loop_body l c = (evs, Next_cycle)"
  shows "listener_loop l (c # cs) = (evs @ fst (listener_loop l cs), snd (listener_loop l cs))"
  using assms by (simp add: split_beta)

lemma listener_loop_uncaught:
  assumes "engine_on (seen c)" "loop_body l c = (evs, Uncaught x)"
  shows "listener_loop l (c # cs) = (evs, Killed x)"
  using assms by simp

text \<open>
  Claim C3. When \<^verbatim>\<open>listen()\<close> raises an \<^verbatim>\<open>Exception\<close>, the body catches it, prints a
  line carrying the listener's class name and the error, and the loop goes on with the
  next cycle as if nothing had been captured.
\<close>

theorem listen_exception_is_caught:
  assumes "engine_on (seen c)" and "channel_flag l (seen c)"
    and "on_listen c = Raised (Exception s)"
  shows "loop_body l c
           = ([Called_listen, Printed (''[Listener Error] '' @ class_name l @ '': '' @ s)],
              Next_cycle)
       \<and> listener_loop l (c # cs)
           = ([Called_listen, Printed (''[Listener Error] '' @ class_name l @ '': '' @ s)]
                @ fst (listener_loop l cs),
              snd (listener_loop l cs))"
proof -
  have b: "loop_body l c
           = ([Called_listen, Printed (''[Listener Error] '' @ class_name l @ '': '' @ s)],
              Next_cycle)"
    using assms(2,3) by (simp add: loop_body_gate_open)
  show ?thesis
    using b listener_loop_next [OF assms(1) b] by simp
qed

theorem listen_exception_is_caught_witness:
  "listener_loop TextListener
     [\<lparr>seen = all_on, on_listen = Raised (Exception ''no device''),
       on_normalize = Returned ''N'', on_forward = Returned ()\<rparr>,
      \<lparr>seen = all_on, on_listen = Returned (Some ''hi''),
       on_normalize = Returned ''N'', on_forward = Returned ()\<rparr>]
   = ([Called_listen, Printed ''[Listener Error] TextListener: no device'',
       Called_listen, Called_normalize ''hi'', Called_forward ''N'', Slept 50],
      Still_running)"
proof -
  let ?c1 = "\<lparr>seen = all_on, on_listen = Raised (Exception ''no device''),
       on_normalize = Returned ''N'', on_forward = Returned ()\<rparr>"
  let ?c2 = "\<lparr>seen = all_on, on_listen = Returned (Some ''hi''),
       on_normalize = Returned ''N'', on_forward = Returned ()\<rparr>"
  have h: "engine_on (seen ?c1)" "channel_flag TextListener (seen ?c1)"
    "on_listen ?c1 = Raised (Exception ''no device'')"
    by (simp_all add: all_on_def)
  have r: "listener_loop TextListener [?c2]
      = ([Called_listen, Called_normalize ''hi'', Called_forward ''N'', Slept 50], Still_running)"
    by (simp add: all_on_def loop_body_def isinstance_def)
  from listen_exception_is_caught [OF h, of "[?c2]"]
  have "listener_loop TextListener [?c1, ?c2]
      = ([Called_listen, Printed (''[Listener Error] '' @ class_name TextListener @ '': ''
             @ ''no device'')] @ fst (listener_loop TextListener [?c2]),
         snd (listener_loop TextListener [?c2]))"
    by (rule conjunct2)
  then show ?thesis unfolding r by simp
qed

text \<open>
  Claim C4. After an absent capture the next cycle should start only after a short
  delay. The loop instead goes straight back to \<^verbatim>\<open>listen()\<close>: the \<^verbatim>\<open>continue\<close> taken
  on \<^verbatim>\<open>None\<close> skips the sleep at the end of the body. Below, two absent captures and
  one real one: three calls of \<^verbatim>\<open>listen()\<close> with no sleep between them, and the only
  sleep is the one after forwarding.
\<close>

theorem absent_capture_is_retried_without_delay:
  "listener_loop EventListener
     [\<lparr>seen = all_on, on_listen = Returned None,
       on_normalize = Returned ''N'', on_forward = Returned ()\<rparr>,
      \<lparr>seen = all_on, on_listen = Returned None,
       on_normalize = Returned ''N'', on_forward = Returned ()\<rparr>,
      \<lparr>seen = all_on, on_listen = Returned (Some ''hi''),
       on_normalize = Returned ''N'', on_forward = Returned ()\<rparr>]
   = ([Called_listen, Called_listen,
       Called_listen, Called_normalize ''hi'', Called_forward ''N'', Slept 50],
      Still_running)"
  by (simp add: all_on_def loop_body_def isinstance_def)

text \<open>
  Claim C5, as amended. The loop has no handler of its own around normalisation and
  forwarding. In a cycle where \<^verbatim>\<open>forward\<close> returns, whatever the gateway did with a
  downstream failure inside, the loop sleeps 50 ms and goes on with the next cycle. In a
  cycle where \<^verbatim>\<open>forward\<close> raises, the exception leaves \<^verbatim>\<open>listener_loop\<close> and ends it
  right after the call.
\<close>

theorem forward_return_continues_raise_propagates:
  assumes "engine_on (seen c)" and "channel_flag l (seen c)"
    and "on_listen c = Returned (Some msg)" and "on_normalize c = Returned n"
  shows "(on_forward c = Returned () \<longrightarrow>
            listener_loop l (c # cs)
              = ([Called_listen, Called_normalize msg, Called_forward n, Slept 50]
                   @ fst (listener_loop l cs),
                 snd (listener_loop l cs)))
       \<and> (on_forward c = Raised x \<longrightarrow>
            listener_loop l (c # cs)
              = ([Called_listen, Called_normalize msg, Called_forward n], Killed x))"
proof (intro conjI impI)
  assume "on_forward c = Returned ()"
  then have "loop_body l c
      = ([Called_listen, Called_normalize msg, Called_forward n, Slept 50], Next_cycle)"
    using assms(2,3,4) by (simp add: loop_body_gate_open)
  from listener_loop_next [OF assms(1) this]
  show "listener_loop l (c # cs)
              = ([Called_listen, Called_normalize msg, Called_forward n, Slept 50]
                   @ fst (listener_loop l cs),
                 snd (listener_loop l cs))" .
next
  assume "on_forward c = Raised x"
  then have "loop_body l c
      = ([Called_listen, Called_normalize msg, Called_forward n], Uncaught x)"
    using assms(2,3,4) by (simp add: loop_body_gate_open)
  from listener_loop_uncaught [OF assms(1) this]
  show "listener_loop l (c # cs)
              = ([Called_listen, Called_normalize msg, Called_forward n], Killed x)" .
qed

theorem forward_return_continues_raise_propagates_witness:
  "listener_loop AudioListener
     [\<lparr>seen = all_on, on_listen = Returned (Some ''pcm''),
       on_normalize = Returned ''N'', on_forward = Returned ()\<rparr>,
      \<lparr>seen = all_on, on_listen = Returned (Some ''pcm2''),
       on_normalize = Returned ''M'', on_forward = Raised (Exception ''refused'')\<rparr>,
      \<lparr>seen = all_on, on_listen = Returned (Some ''pcm3''),
       on_normalize = Returned ''O'', on_forward = Returned ()\<rparr>]
   = ([Called_listen, Called_normalize ''pcm'', Called_forward ''N'', Slept 50,
       Called_listen, Called_normalize ''pcm2'', Called_forward ''M''],
      Killed (Exception ''refused''))"
proof -
  let ?c1 = "\<lparr>seen = all_on, on_listen = Returned (Some ''pcm''),
       on_normalize = Returned ''N'', on_forward = Returned ()\<rparr>"
  let ?c2 = "\<lparr>seen = all_on, on_listen = Returned (Some ''pcm2''),
       on_normalize = Returned ''M'', on_forward = Raised (Exception ''refused'')\<rparr>"
  let ?c3 = "\<lparr>seen = all_on, on_listen = Returned (Some ''pcm3''),
       on_normalize = Returned ''O'', on_forward = Returned ()\<rparr>"
  have a: "engine_on (seen ?c1)" "channel_flag AudioListener (seen ?c1)"
     "on_listen ?c1 = Returned (Some ''pcm'')" "on_normalize ?c1 = Returned ''N''"
     "on_forward ?c1 = Returned ()"
    by (simp_all add: all_on_def)
  have b: "engine_on (seen ?c2)" "channel_flag AudioListener (seen ?c2)"
     "on_listen ?c2 = Returned (Some ''pcm2'')" "on_normalize ?c2 = Returned ''M''"
     "on_forward ?c2 = Raised (Exception ''refused'')"
    by (simp_all add: all_on_def)
  from forward_return_continues_raise_propagates [OF a(1-4), of "[?c2, ?c3]"] a(5)
  have 1: "listener_loop AudioListener [?c1, ?c2, ?c3]
      = ([Called_listen, Called_normalize ''pcm'', Called_forward ''N'', Slept 50]
           @ fst (listener_loop AudioListener [?c2, ?c3]),
         snd (listener_loop AudioListener [?c2, ?c3]))"
    by blast
  from forward_return_continues_raise_propagates [OF b(1-4), of "[?c3]" "Exception ''refused''"] b(5)
  have 2: "listener_loop AudioListener [?c2, ?c3]
      = ([Called_listen, Called_normalize ''pcm2'', Called_forward ''M''],
         Killed (Exception ''refused''))"
    by blast
  show ?thesis unfolding 1 2 by simp
qed

text \<open>
  Claim C5 as first stated also promises that the loop survives a \<^verbatim>\<open>forward\<close> that
  raises. It does not: the second cycle offered below is never run.
\<close>

theorem forward_exception_kills_loop_counterexample:
  "listener_loop TextListener
     [\<lparr>seen = all_on, on_listen = Returned (Some ''hi''),
       on_normalize = Returned ''N'', on_forward = Raised (Exception ''downstream unavailable'')\<rparr>,
      \<lparr>seen = all_on, on_listen = Returned (Some ''again''),
       on_normalize = Returned ''M'', on_forward = Returned ()\<rparr>]
   = ([Called_listen, Called_normalize ''hi'', Called_forward ''N''],
      Killed (Exception ''downstream unavailable''))"
  by (simp add: all_on_def loop_body_def isinstance_def)

section \<open>The gate and the master switch over many cycles\<close>

text \<open>
  Claim C6. For as many cycles as the listener's own enable flag reads false, the loop
  does nothing but sleep 100 ms per cycle: no capture, no normalisation, no forwarding.
  It is the same loop that carries on afterwards: from the first cycle on, it behaves
  exactly as the loop would on the remaining cycles alone, so forwarding resumes as soon
  as the flag reads true.
\<close>

theorem disabled_channel_forwards_nothing:
  assumes "\<forall>c \<in> set idle. engine_on (seen c) \<and> \<not> channel_flag l (seen c)"
  shows "listener_loop l (idle @ cs)
           = (replicate (length idle) (Slept 100) @ fst (listener_loop l cs),
              snd (listener_loop l cs))"
  using assms
proof (induction idle)
  case Nil
  show ?case by simp
next
  case (Cons c idle)
  then have on: "engine_on (seen c)" and off: "\<not> channel_flag l (seen c)" by simp_all
  have "listener_loop l ((c # idle) @ cs)
          = ([Slept 100] @ fst (listener_loop l (idle @ cs)), snd (listener_loop l (idle @ cs)))"
    using listener_loop_next [OF on loop_body_gate_closed [OF off]] by simp
  with Cons show ?case by simp
qed

theorem disabled_channel_forwards_nothing_witness:
  "listener_loop TextListener
     [\<lparr>seen = all_on\<lparr>text_enabled := False\<rparr>, on_listen = Returned (Some ''typed''),
       on_normalize = Returned ''N'', on_forward = Returned ()\<rparr>,
      \<lparr>seen = all_on\<lparr>text_enabled := False\<rparr>, on_listen = Returned (Some ''typed''),
       on_normalize = Returned ''N'', on_forward = Returned ()\<rparr>,
      \<lparr>seen = all_on, on_listen = Returned (Some ''typed''),
       on_normalize = Returned ''N'', on_forward = Returned ()\<rparr>]
   = ([Slept 100, Slept 100,
       Called_listen, Called_normalize ''typed'', Called_forward ''N'', Slept 50],
      Still_running)"
proof -
  let ?off = "\<lparr>seen = all_on\<lparr>text_enabled := False\<rparr>, on_listen = Returned (Some ''typed''),
       on_normalize = Returned ''N'', on_forward = Returned ()\<rparr>"
  let ?on = "\<lparr>seen = all_on, on_listen = Returned (Some ''typed''),
       on_normalize = Returned ''N'', on_forward = Returned ()\<rparr>"
  have h: "\<forall>c \<in> set [?off, ?off]. engine_on (seen c) \<and> \<not> channel_flag TextListener (seen c)"
    by (simp add: all_on_def)
  have r: "listener_loop TextListener [?on]
      = ([Called_listen, Called_normalize ''typed'', Called_forward ''N'', Slept 50], Still_running)"
    by (simp add: all_on_def loop_body_def isinstance_def)
  from disabled_channel_forwards_nothing [OF h, of "[?on]"]
  show ?thesis unfolding r by (simp add: numeral_2_eq_2)
qed

text \<open>
  Claim C7. When the master flag reads false at the top of a cycle, the loop leaves at
  once: nothing is captured, normalised or forwarded in that cycle or in any later one,
  whatever came before and whatever would have come after.
\<close>

theorem engine_off_ends_loop:
  assumes "\<not> engine_on (seen c)"
  shows "listener_loop l (c # cs) = ([], Exited)
       \<and> fst (listener_loop l (pre @ c # cs)) = fst (listener_loop l pre)
       \<and> snd (listener_loop l (pre @ c # cs))
           = (if snd (listener_loop l pre) = Still_running then Exited
              else snd (listener_loop l pre))"
proof -
  have one: "listener_loop l (c # cs) = ([], Exited)" using assms by simp
  have "fst (listener_loop l (pre @ c # cs)) = fst (listener_loop l pre)
       \<and> snd (listener_loop l (pre @ c # cs))
           = (if snd (listener_loop l pre) = Still_running then Exited
              else snd (listener_loop l pre))"
  proof (induction pre)
    case Nil
    show ?case using assms by simp
  next
    case (Cons p pre)
    show ?case
    proof (cases "engine_on (seen p)")
      case False
      then show ?thesis by simp
    next
      case True
      obtain evs fl where b: "loop_body l p = (evs, fl)" by (cases "loop_body l p")
      show ?thesis
      proof (cases fl)
        case Next_cycle
        with True b Cons show ?thesis by (simp add: split_beta)
      next
        case (Uncaught x)
        with True b show ?thesis by simp
      qed
    qed
  qed
  with one show ?thesis by simp
qed

theorem engine_off_ends_loop_witness:
  "listener_loop SignalListener
     [\<lparr>seen = all_on, on_listen = Returned (Some ''t=21''),
       on_normalize = Returned ''N'', on_forward = Returned ()\<rparr>,
      \<lparr>seen = all_on\<lparr>engine_on := False\<rparr>, on_listen = Returned (Some ''t=22''),
       on_normalize = Returned ''M'', on_forward = Returned ()\<rparr>,
      \<lparr>seen = all_on, on_listen = Returned (Some ''t=23''),
       on_normalize = Returned ''O'', on_forward = Returned ()\<rparr>]
   = ([Called_listen, Called_normalize ''t=21'', Called_forward ''N'', Slept 50], Exited)"
proof -
  let ?c1 = "\<lparr>seen = all_on, on_listen = Returned (Some ''t=21''),
       on_normalize = Returned ''N'', on_forward = Returned ()\<rparr>"
  let ?c2 = "\<lparr>seen = all_on\<lparr>engine_on := False\<rparr>, on_listen = Returned (Some ''t=22''),
       on_normalize = Returned ''M'', on_forward = Returned ()\<rparr>"
  let ?c3 = "\<lparr>seen = all_on, on_listen = Returned (Some ''t=23''),
       on_normalize = Returned ''O'', on_forward = Returned ()\<rparr>"
  have h: "\<not> engine_on (seen ?c2)" by (simp add: all_on_def)
  have r: "listener_loop SignalListener [?c1]
      = ([Called_listen, Called_normalize ''t=21'', Called_forward ''N'', Slept 50], Still_running)"
    by (simp add: all_on_def loop_body_def isinstance_def)
  from engine_off_ends_loop [OF h, of SignalListener "[?c3]" "[?c1]"]
  have "fst (listener_loop SignalListener [?c1, ?c2, ?c3]) = fst (listener_loop SignalListener [?c1])"
    and "snd (listener_loop SignalListener [?c1, ?c2, ?c3])
         = (if snd (listener_loop SignalListener [?c1]) = Still_running then Exited
              else snd (listener_loop SignalListener [?c1]))"
    by simp_all
  then show ?thesis unfolding r by (simp add: prod_eq_iff)
qed

section \<open>The order of shutdown\<close>

text \<open>
  Claim C8, as amended. On a keyboard interrupt \<^verbatim>\<open>main\<close> first sets the master flag to
  false, and only then calls \<^verbatim>\<open>stop()\<close>, in descending engine number: 006, 005, 004,
  003, 002. For the four controllers 003 to 006 this is the reverse of the order they
  were started in. The Mother Engine (002) is the exception: its start is launched last
  and its stop is called last.
\<close>

theorem shutdown_sets_flag_then_stops_by_descending_number:
  "last (takeWhile (\<lambda>ev. stop_of ev = None) (main KeyboardInterrupt)) = Set_engine_on False
   \<and> stop_order (main KeyboardInterrupt)
     = [Engine_006, Engine_005, Engine_004, Engine_003, Engine_002]
   \<and> filter (\<lambda>g. g \<noteq> Engine_002) (stop_order (main KeyboardInterrupt))
     = rev (filter (\<lambda>g. g \<noteq> Engine_002) (start_order (main KeyboardInterrupt)))
   \<and> last (start_order (main KeyboardInterrupt)) = Engine_002
   \<and> last (stop_order (main KeyboardInterrupt)) = Engine_002"
  by (simp add: start_order_def stop_order_def main_def startup_def on_keyboard_interrupt_def
      cleanup_def listeners_def List.map_filter_simps)

text \<open>
  Claim C8 as first stated asks for the strict reverse of the start order. Engine 003 is
  started before Engine 002, yet Engine 002 is not stopped before Engine 003.
\<close>

theorem stop_order_not_reverse_of_start_order:
  "start_order (main KeyboardInterrupt)
     = [Engine_003, Engine_004, Engine_005, Engine_006, Engine_002]
   \<and> stop_order (main KeyboardInterrupt)
     = [Engine_006, Engine_005, Engine_004, Engine_003, Engine_002]
   \<and> stop_order (main KeyboardInterrupt) \<noteq> rev (start_order (main KeyboardInterrupt))
   \<and> precedes Engine_003 Engine_002 (start_order (main KeyboardInterrupt))
   \<and> \<not> precedes Engine_002 Engine_003 (stop_order (main KeyboardInterrupt))"
  by (simp add: start_order_def stop_order_def main_def startup_def on_keyboard_interrupt_def
      cleanup_def listeners_def List.map_filter_simps precedes_def)

end
